theory Spec2Isabelle
  imports Main "HOL-Library.Word"
begin

unbundle bit_operations_syntax

section \<open>C strings\<close>

text \<open>
  A C buffer is the list of the bytes it holds in front of the terminator that was written
  last; the string functions of libc stop at the first NUL byte of that list, or at its
  end, where the terminator stands.
\<close>

abbreviation NUL :: char where
  "NUL \<equiv> CHR 0x00"

definition cstr :: "string \<Rightarrow> string" where
  "cstr bs = takeWhile (\<lambda>c. c \<noteq> NUL) bs"

definition strlen :: "string \<Rightarrow> nat" where
  "strlen bs = length (cstr bs)"

text \<open>\<open>strcmp\<close>: the difference of the first two bytes that differ, read as unsigned char.\<close>

fun strcmp :: "string \<Rightarrow> string \<Rightarrow> int" where
  "strcmp [] [] = 0"
| "strcmp (a # as) [] = int (of_char a)"
| "strcmp [] (b # bs) = - int (of_char b)"
| "strcmp (a # as) (b # bs) =
     (if a = b then (if a = NUL then 0 else strcmp as bs)
      else int (of_char a) - int (of_char b))"

text \<open>\<open>memcpy(dst, src + off, n)\<close>: the \<open>n\<close> bytes of \<open>src\<close> from offset \<open>off\<close>.\<close>

definition memcpy :: "string \<Rightarrow> nat \<Rightarrow> nat \<Rightarrow> string" where
  "memcpy src off n = take n (drop off src)"

text \<open>
  \<open>int copySize = strlen(a) - strlen(b)\<close>: the subtraction is done in \<open>size_t\<close>
  (64 bits, wrapping), and the result is converted to a 32-bit \<open>int\<close>.
\<close>

definition size_t_sub :: "nat \<Rightarrow> nat \<Rightarrow> int" where
  "size_t_sub a b = (int a - int b) mod 2 ^ 64"

definition int_of_size_t :: "int \<Rightarrow> int" where
  "int_of_size_t x = (x + 2 ^ 31) mod 2 ^ 32 - 2 ^ 31"

section \<open>Decimal numbers: \<open>sprintf("%d")\<close>, \<open>atoi\<close>, \<open>fgets\<close>\<close>

definition digit_char :: "nat \<Rightarrow> char" where
  "digit_char d = char_of (48 + d)"

fun dec_digits :: "nat \<Rightarrow> string" where
  "dec_digits n = (if n < 10 then [digit_char n] else dec_digits (n div 10) @ [digit_char (n mod 10)])"

declare dec_digits.simps [simp del]

definition sprintf_d :: "int \<Rightarrow> string" where
  "sprintf_d i = (if i < 0 then CHR ''-'' # dec_digits (nat (- i)) else dec_digits (nat i))"

definition isdigit :: "char \<Rightarrow> bool" where
  "isdigit c = (48 \<le> (of_char c :: nat) \<and> (of_char c :: nat) \<le> 57)"

definition isspace :: "char \<Rightarrow> bool" where
  "isspace c = ((of_char c :: nat) = 32 \<or> (9 \<le> (of_char c :: nat) \<and> (of_char c :: nat) \<le> 13))"

definition digits_value :: "string \<Rightarrow> int" where
  "digits_value s = foldl (\<lambda>acc c. acc * 10 + (int (of_char c) - 48)) 0 (takeWhile isdigit s)"

definition atoi :: "string \<Rightarrow> int" where
  "atoi s =
     (case dropWhile isspace s of
        [] \<Rightarrow> 0
      | c # cs \<Rightarrow>
          if c = CHR ''-'' then - digits_value cs
          else if c = CHR ''+'' then digits_value cs
          else digits_value (c # cs))"

text \<open>
  \<open>fgets(buf, n, fp)\<close> on the rest of a stream: at most \<open>n - 1\<close> bytes, stopping behind a
  newline; \<open>None\<close> (NULL) at the end of the stream.
\<close>

fun fgets_split :: "nat \<Rightarrow> string \<Rightarrow> string \<times> string" where
  "fgets_split 0 s = ([], s)"
| "fgets_split (Suc k) [] = ([], [])"
| "fgets_split (Suc k) (c # cs) =
     (if c = CHR 0x0A then ([c], cs)
      else (c # fst (fgets_split k cs), snd (fgets_split k cs)))"

definition fgets :: "nat \<Rightarrow> string \<Rightarrow> (string \<times> string) option" where
  "fgets n s = (if s = [] then None else Some (fgets_split (n - 1) s))"

section \<open>The session thread: state, events and inputs\<close>

text \<open>
  Everything the thread does to the outside is an event of its trace. Signals are numbered
  as in \<open>signal.h\<close>, the poll bits as in \<open>poll.h\<close>.
\<close>

datatype event =
    Mutex_lock
  | Mutex_unlock
  | Poll int nat
  | Usleep nat
  | Popen string
  | Pclose
  | Kill int int
  | Read_tty int nat
  | Write_tty int string

definition SIGINT :: int where
  "SIGINT = 2"

definition POLLIN :: "16 word" where
  "POLLIN = 0x001"

definition POLLOUT :: "16 word" where
  "POLLOUT = 0x004"

text \<open>
  \<open>BUFFER_SIZE\<close> and \<open>remove_escape_codes\<close> come from headers that are not part of
  the source file: they are parameters. \<open>remove_escape_codes\<close> maps the C string a buffer
  holds to the C string it holds afterwards. \<open>malloc_usable_size n\<close> is the number of
  bytes the allocator of the C library really gives a block of \<open>malloc(n)\<close>.
\<close>

record platform =
  BUFFER_SIZE :: nat
  remove_escape_codes :: "string \<Rightarrow> string"
  malloc_usable_size :: "nat \<Rightarrow> nat"

text \<open>
  The variables of \<open>tty_thread\<close> and the globals it shares with the user interface. A
  \<open>char*\<close> is \<open>None\<close> when it is NULL, and otherwise the bytes that \<open>memcpy\<close> has put
  into its block, without the terminator: the code writes that one byte further, at the
  index that is the size it asked \<open>malloc\<close> for.
  \<open>command_buffer\<close> is the whole array, so its length is \<open>sizeof(command_buffer)\<close>.
\<close>

record tty_state =
  pid :: int
  tty_fd :: int
  terminal_buffer :: string
  term_needs_update :: bool
  entered_command :: "string option"
  cut_terminal :: "string option"
  tmp_length :: int
  sig_int_sent :: bool
  command_ready_to_send :: bool
  command_buffer :: string
  command_buffer_pos :: int
  command_buffer_length :: nat

text \<open>
  What the operating system and the C library answer in one iteration: the \<open>revents\<close>
  of the descriptor after \<open>poll\<close>, the output of \<open>pgrep\<close> (\<open>None\<close> when \<open>popen\<close>
  returns NULL), the bytes the pseudo-terminal holds for \<open>read\<close> (or its failure), and
  the bytes up to the next NUL that stand right behind the block of \<open>entered_command\<close>
  once \<open>malloc\<close> has made the block of \<open>cut_terminal\<close> (the allocator keeps its own
  records between the blocks; \<open>[]\<close> when a NUL stands there).
\<close>

datatype read_outcome = Read_error | Read_bytes string

record iteration_input =
  revents :: "16 word"
  pgrep_output :: "string option"
  read_result :: read_outcome
  behind_entered_command :: string

datatype fault = Out_of_bounds_write int

section \<open>Interrupt delivery\<close>

text \<open>The loop \<open>while (fgets(number_buffer, 20, fp) != NULL) kill(atoi(number_buffer), SIGINT)\<close>.\<close>

function kill_lines :: "string \<Rightarrow> event list" where
  "kill_lines stream =
     (case fgets 20 stream of
        None \<Rightarrow> []
      | Some (line, rest) \<Rightarrow> Kill (atoi line) SIGINT # kill_lines rest)"
  by pat_completeness auto
termination
proof (relation "measure length")
  show "wf (measure length)" by simp
next
  fix stream :: string and x2 line rest
  assume a: "fgets 20 stream = Some x2" "(line, rest) = x2"
  have le: "length (snd (fgets_split k s)) \<le> length s" for k s
    by (induction k s rule: fgets_split.induct) auto
  from a have ne: "stream \<noteq> []" and r: "rest = snd (fgets_split 19 stream)"
    by (auto simp: fgets_def split: if_splits)
  from ne obtain c cs where s: "stream = c # cs" by (cases stream) auto
  have lt: "length (snd (fgets_split (Suc k) (c # cs))) < length (c # cs)" for k
    using le [of k cs] by simp
  have "(19 :: nat) = Suc 18" by simp
  with lt [of 18] have "length (snd (fgets_split 19 (c # cs))) < length (c # cs)" by metis
  with r s show "(rest, stream) \<in> measure length" by simp
qed

declare kill_lines.simps [simp del]

definition run_kill_child_pids :: "int \<Rightarrow> string option \<Rightarrow> event list" where
  "run_kill_child_pids p popen_result =
     Popen (''pgrep -P '' @ sprintf_d p) #
     (case popen_result of
        None \<Rightarrow> []
      | Some stream \<Rightarrow> kill_lines stream @ [Pclose])"

definition handle_interrupt :: "iteration_input \<Rightarrow> tty_state \<Rightarrow> event list \<times> tty_state" where
  "handle_interrupt inp s =
     (if sig_int_sent s
      then (run_kill_child_pids (pid s) (pgrep_output inp) @ [Kill (pid s) SIGINT],
            s\<lparr>sig_int_sent := False\<rparr>)
      else ([], s))"

section \<open>The read cycle\<close>

text \<open>
  \<open>read(tty_fd, &terminal_buffer, BUFFER_SIZE)\<close> stores at most \<open>BUFFER_SIZE\<close> bytes and
  returns their number, or \<open>-1\<close> and stores nothing.
\<close>

definition tty_read :: "nat \<Rightarrow> read_outcome \<Rightarrow> string \<Rightarrow> int \<times> string" where
  "tty_read count rd buf =
     (case rd of
        Read_error \<Rightarrow> (- 1, buf)
      | Read_bytes avail \<Rightarrow> (int (length (take count avail)), take count avail))"

text \<open>
  \<open>p = malloc(n); memcpy(p, src, n); p[n] = '\0';\<close> (lines 170 to 172 for
  \<open>cut_terminal\<close>, lines 199 to 201 for \<open>entered_command\<close>) writes the terminator at
  index \<open>n\<close> of a block that was asked to hold \<open>n\<close> bytes. The byte is inside the block
  only when the allocator gave more than was asked for. A block has the bytes that were
  asked for at least, and \<open>malloc(0)\<close> returns a block and not NULL.
\<close>

definition block_size :: "platform \<Rightarrow> nat \<Rightarrow> nat" where
  "block_size P n = max (malloc_usable_size P n) (max n 1)"

text \<open>
  The bytes such a block holds in front of index \<open>n\<close>. Whether a string function that
  reads the block stops at index \<open>n\<close> is not settled here: the terminator may stand behind
  the block, where the allocator writes as well.
\<close>

definition malloc_copy :: "string \<Rightarrow> nat \<Rightarrow> string" where
  "malloc_copy src n = memcpy src 0 n"

text \<open>
  What \<open>strlen\<close> and \<open>strcmp\<close> read from the block of \<open>entered_command\<close>: its bytes,
  up to the terminator when that is inside the block, and on into the bytes \<open>behind\<close> the
  block when it is not, because a later \<open>malloc\<close> has written there.
\<close>

definition heap_string :: "platform \<Rightarrow> string \<Rightarrow> string \<Rightarrow> string" where
  "heap_string P behind bytes =
     (if length bytes < block_size P (length bytes) then bytes else bytes @ behind)"

text \<open>
  \<open>if (tmp_length != 0) { cut_terminal = malloc(tmp_length); memcpy(...); cut_terminal[tmp_length] = 0; }\<close>
  The bytes \<open>memcpy\<close> takes from behind the terminator of \<open>terminal_buffer\<close> stand behind
  a NUL in \<open>cut_terminal\<close> too, where no string function reads them. The terminator of
  \<open>cut_terminal\<close> itself, inside its block or one byte behind it, is read back by
  \<open>strcmp\<close> before anything else is allocated.
\<close>

definition copy_cut_terminal :: "tty_state \<Rightarrow> tty_state" where
  "copy_cut_terminal s =
     (if tmp_length s \<noteq> 0
      then s\<lparr>cut_terminal := Some (malloc_copy (terminal_buffer s) (nat (tmp_length s)))\<rparr>
      else s)"

text \<open>
  The other effect of that statement: its \<open>malloc\<close> is what writes behind the block of
  \<open>entered_command\<close>. \<open>behind\<close> is what the allocator leaves there; without the
  \<open>malloc\<close> the terminator that the send wrote is still in its place.
\<close>

definition behind_after_malloc :: "string \<Rightarrow> tty_state \<Rightarrow> string" where
  "behind_after_malloc behind s = (if tmp_length s \<noteq> 0 then behind else [])"

text \<open>
  The body of the \<open>else if (strcmp(entered_command, cut_terminal) == 0)\<close> branch. The
  \<open>memcpy\<close> inside \<open>terminal_buffer\<close> copies from low to high addresses.
\<close>

definition suppress_echo :: "platform \<Rightarrow> string \<Rightarrow> tty_state \<Rightarrow> tty_state" where
  "suppress_echo P ec s =
     (let s1 = s\<lparr>terminal_buffer := remove_escape_codes P (cstr (terminal_buffer s))\<rparr>;
          copySize = int_of_size_t (size_t_sub (strlen (terminal_buffer s1)) (strlen ec))
      in if copySize - 2 > 0
         then s1\<lparr>terminal_buffer := memcpy (terminal_buffer s1) (strlen ec) (nat copySize),
                 term_needs_update := True\<rparr>
         else s1)"

text \<open>
  The decision of line 175. \<open>behind\<close> is what stands behind the block of
  \<open>entered_command\<close> at that moment.
\<close>

definition echo_decision :: "platform \<Rightarrow> string \<Rightarrow> tty_state \<Rightarrow> tty_state" where
  "echo_decision P behind s =
     (case entered_command s of
        None \<Rightarrow> s\<lparr>term_needs_update := True\<rparr>
      | Some ec \<Rightarrow>
          (case cut_terminal s of
             None \<Rightarrow> s\<lparr>term_needs_update := True\<rparr>
           | Some ct \<Rightarrow>
               if strlen (heap_string P behind ec) = 0 \<or> strcmp (heap_string P behind ec) ct \<noteq> 0
               then s\<lparr>term_needs_update := True\<rparr>
               else if strcmp (heap_string P behind ec) ct = 0
               then suppress_echo P (heap_string P behind ec) s
               else s))"

text \<open>The two \<open>free\<close> blocks that end the read cycle.\<close>

definition free_echo_window :: "platform \<Rightarrow> string \<Rightarrow> tty_state \<Rightarrow> tty_state" where
  "free_echo_window P behind s =
     (let s1 = (case entered_command s of
                  None \<Rightarrow> s
                | Some ec \<Rightarrow>
                    if strlen (heap_string P behind ec) > 0 then s\<lparr>entered_command := None\<rparr> else s)
      in case cut_terminal s1 of
           None \<Rightarrow> s1
         | Some ct \<Rightarrow> s1\<lparr>cut_terminal := None\<rparr>)"

text \<open>
  The read cycle. \<open>terminal_buffer[readValue] = 0\<close> writes outside the array when
  \<open>read\<close> failed or filled the whole array: that is the fault. From the \<open>malloc\<close> of
  \<open>cut_terminal\<close> on, \<open>entered_command\<close> is read with what stands behind its block.
\<close>

definition read_cycle ::
  "platform \<Rightarrow> read_outcome \<Rightarrow> string \<Rightarrow> tty_state \<Rightarrow> event list \<times> (fault + tty_state)" where
  "read_cycle P rd behind s =
     (let (readValue, bytes) = tty_read (BUFFER_SIZE P) rd (terminal_buffer s);
          overwritten = behind_after_malloc behind s
      in ([Read_tty (tty_fd s) (BUFFER_SIZE P)],
          if readValue < 0 \<or> int (BUFFER_SIZE P) \<le> readValue
          then Inl (Out_of_bounds_write readValue)
          else Inr (free_echo_window P overwritten (echo_decision P overwritten (copy_cut_terminal
                 (s\<lparr>terminal_buffer := take (nat readValue) bytes\<rparr>))))))"

section \<open>Sending a command\<close>

text \<open>
  The whole array is written to the pseudo-terminal, and the first \<open>command_buffer_length\<close>
  bytes are copied into a new block for \<open>entered_command\<close>, whatever it pointed to before.
  The list is as long as the block was asked to be. The terminator goes to
  \<open>entered_command[command_buffer_length]\<close>, which is inside the block only when
  \<open>command_buffer_length < block_size P command_buffer_length\<close>; the read cycle reads the
  block through \<open>heap_string\<close>. For a length of zero the block holds the empty string.
\<close>

definition send_command :: "tty_state \<Rightarrow> event list \<times> tty_state" where
  "send_command s =
     ([Write_tty (tty_fd s) (command_buffer s)],
      s\<lparr>command_ready_to_send := False,
        command_buffer_pos := 0,
        entered_command := Some (malloc_copy (command_buffer s) (command_buffer_length s)),
        command_buffer := replicate (length (command_buffer s)) NUL,
        tmp_length := int (command_buffer_length s),
        command_buffer_length := 0\<rparr>)"

section \<open>The multiplex loop\<close>

definition loop_iteration ::
  "platform \<Rightarrow> iteration_input \<Rightarrow> tty_state \<Rightarrow> event list \<times> (fault + tty_state)" where
  "loop_iteration P inp s =
     (let before = [Mutex_lock, Poll (tty_fd s) 10, Usleep 100];
          (signals, s1) = handle_interrupt inp s
      in if revents inp AND POLLIN \<noteq> 0 \<and> \<not> term_needs_update s1 then
           (case read_cycle P (read_result inp) (behind_entered_command inp) s1 of
              (io, Inl f) \<Rightarrow> (before @ signals @ io, Inl f)
            | (io, Inr s2) \<Rightarrow> (before @ signals @ io @ [Mutex_unlock], Inr s2))
         else if revents inp AND POLLOUT \<noteq> 0 \<and> command_ready_to_send s1 then
           (let (io, s2) = send_command s1
            in (before @ signals @ io @ [Mutex_unlock], Inr s2))
         else (before @ signals @ [Mutex_unlock], Inr s1))"

text \<open>The first iterations of \<open>while (1)\<close>, one per input, up to a fault.\<close>

fun tty_loop ::
  "platform \<Rightarrow> iteration_input list \<Rightarrow> tty_state \<Rightarrow> event list \<times> (fault + tty_state)" where
  "tty_loop P [] s = ([], Inr s)"
| "tty_loop P (inp # inps) s =
     (case loop_iteration P inp s of
        (ev, Inl f) \<Rightarrow> (ev, Inl f)
      | (ev, Inr s1) \<Rightarrow> (ev @ fst (tty_loop P inps s1), snd (tty_loop P inps s1)))"

section \<open>Console setup and the start of the thread\<close>

text \<open>The constants of \<open>linux/kd.h\<close>.\<close>

definition KD_TEXT :: int where
  "KD_TEXT = 0"

definition KD_GRAPHICS :: int where
  "KD_GRAPHICS = 1"

definition K_UNICODE :: int where
  "K_UNICODE = 3"

definition K_OFF :: int where
  "K_OFF = 4"

datatype ioctl_request = KDGKBMODE | KDSKBMODE | KDGETMODE | KDSETMODE

datatype forkpty_outcome = Forkpty_failed | Forkpty_child | Forkpty_parent int int

text \<open>
  What the operating system answers while the session is set up: the descriptor \<open>open\<close>
  returns (negative on failure), the requests \<open>ioctl\<close> refuses, the return value of
  \<open>pthread_create\<close>, what \<open>forkpty\<close> does in the new thread, and what the new thread
  finds where \<open>dimen\<close> was when it gets to read it: \<open>None\<close> when
  \<open>ul_terminal_prepare_current_terminal\<close> has not returned yet and the variable is still
  alive, and otherwise the contents of the dead stack slot.
\<close>

record term_dimen =
  width :: int
  height :: int

record system_calls =
  open_result :: int
  ioctl_fails :: "ioctl_request \<Rightarrow> bool"
  pthread_create_result :: int
  forkpty_result :: forkpty_outcome
  dimen_slot :: "term_dimen option"

text \<open>
  The static variables of the file, the two modes of the console device itself, the
  warnings logged, and, once \<open>pthread_create\<close> has started the thread, what \<open>dimen\<close>
  holds at that moment. The thread gets the address of \<open>dimen\<close>, not this value.
\<close>

record console_state =
  current_fd :: int
  original_mode :: int
  original_kb_mode :: int
  console_kb_mode :: int
  console_mode :: int
  warnings :: "string list"
  thread_arg :: "term_dimen option"

definition ul_log_warning :: "string \<Rightarrow> console_state \<Rightarrow> console_state" where
  "ul_log_warning msg w = w\<lparr>warnings := warnings w @ [msg]\<rparr>"

text \<open>
  \<open>ioctl(current_fd, request, arg)\<close>: \<open>-1\<close> and no effect when the request is refused. The
  two get requests are only ever called with the addresses of \<open>original_kb_mode\<close> and
  \<open>original_mode\<close>, which they fill; the two set requests change the device.
\<close>

definition ioctl :: "system_calls \<Rightarrow> ioctl_request \<Rightarrow> int \<Rightarrow> console_state \<Rightarrow> int \<times> console_state" where
  "ioctl E request arg w =
     (if ioctl_fails E request then (- 1, w)
      else (0, case request of
                 KDGKBMODE \<Rightarrow> w\<lparr>original_kb_mode := console_kb_mode w\<rparr>
               | KDSKBMODE \<Rightarrow> w\<lparr>console_kb_mode := arg\<rparr>
               | KDGETMODE \<Rightarrow> w\<lparr>original_mode := console_mode w\<rparr>
               | KDSETMODE \<Rightarrow> w\<lparr>console_mode := arg\<rparr>))"

definition close_current_terminal :: "console_state \<Rightarrow> console_state" where
  "close_current_terminal w = (if current_fd w < 0 then w else w\<lparr>current_fd := - 1\<rparr>)"

definition reopen_current_terminal :: "system_calls \<Rightarrow> console_state \<Rightarrow> bool \<times> console_state" where
  "reopen_current_terminal E w =
     (let w1 = (close_current_terminal w)\<lparr>current_fd := open_result E\<rparr>
      in if current_fd w1 < 0 then (False, ul_log_warning ''Could not open /dev/tty0'' w1)
         else (True, w1))"

definition ul_terminal_prepare_current_terminal ::
  "system_calls \<Rightarrow> int \<Rightarrow> int \<Rightarrow> console_state \<Rightarrow> bool \<times> console_state" where
  "ul_terminal_prepare_current_terminal E term_width term_height w =
     (let w1 = snd (reopen_current_terminal E w) in
      if current_fd w1 < 0
      then (False, ul_log_warning ''Could not prepare current terminal'' w1)
      else let (r2, w2) = ioctl E KDGKBMODE 0 w1 in
      if r2 \<noteq> 0
      then (False, ul_log_warning ''Could not get terminal keyboard mode'' w2)
      else let (r3, w3) = ioctl E KDSKBMODE K_OFF w2 in
      if r3 \<noteq> 0
      then (False, ul_log_warning ''Could not set terminal keyboard mode to off'' w3)
      else let (r4, w4) = ioctl E KDGETMODE 0 w3 in
      if r4 \<noteq> 0
      then (False, ul_log_warning ''Could not get terminal mode'' w4)
      else let (r5, w5) = ioctl E KDSETMODE KD_GRAPHICS w4 in
      if r5 \<noteq> 0
      then (False, ul_log_warning ''Could not set terminal mode to graphics'' w5)
      else let dimen = \<lparr>width = term_width, height = term_height\<rparr> in
      if pthread_create_result E \<noteq> 0
      then (False, ul_log_warning ''Could not start TTY thread'' w5)
      else (True, w5\<lparr>thread_arg := Some dimen\<rparr>))"

definition ul_terminal_reset_current_terminal :: "system_calls \<Rightarrow> console_state \<Rightarrow> console_state" where
  "ul_terminal_reset_current_terminal E w =
     (if current_fd w < 0 then ul_log_warning ''Could not reset current terminal'' w
      else let (r1, w1) = ioctl E KDSETMODE (original_mode w) w;
               w1' = (if r1 \<noteq> 0 then ul_log_warning ''Could not reset terminal mode'' w1 else w1);
               (r2, w2) = ioctl E KDSKBMODE (original_kb_mode w1') w1';
               w2' = (if r2 \<noteq> 0 then ul_log_warning ''Could not reset terminal keyboard mode'' w2 else w2)
           in close_current_terminal w2')"

text \<open>
  The start of \<open>tty_thread\<close>: the window size from the pixel size (\<open>/\<close> of C truncates
  towards zero, and the fields of \<open>struct winsize\<close> are unsigned 16-bit), then
  \<open>forkpty\<close>. Only \<open>pid == 0\<close> is tested, so a failed \<open>forkpty\<close> (\<open>-1\<close>, and
  \<open>tty_fd\<close> untouched) runs the loop like the parent does.
\<close>

definition c_div :: "int \<Rightarrow> int \<Rightarrow> int" where
  "c_div a b = sgn a * sgn b * (\<bar>a\<bar> div \<bar>b\<bar>)"

record winsize =
  ws_row :: "16 word"
  ws_col :: "16 word"

definition window_size :: "term_dimen \<Rightarrow> winsize" where
  "window_size tty_dimen =
     \<lparr>ws_row = word_of_int (c_div (height tty_dimen) 16),
      ws_col = word_of_int (c_div (width tty_dimen) 8)\<rparr>"

datatype thread_start = Child_execs_shell winsize | Parent_runs_loop winsize tty_state

definition tty_thread_start :: "forkpty_outcome \<Rightarrow> tty_state \<Rightarrow> term_dimen \<Rightarrow> thread_start" where
  "tty_thread_start fk globals tty_dimen =
     (let ws = window_size tty_dimen;
          s = (case fk of
                 Forkpty_failed \<Rightarrow> globals\<lparr>pid := - 1\<rparr>
               | Forkpty_child \<Rightarrow> globals\<lparr>pid := 0\<rparr>
               | Forkpty_parent child master \<Rightarrow> globals\<lparr>pid := child, tty_fd := master\<rparr>);
          s0 = s\<lparr>entered_command := None, cut_terminal := None, tmp_length := 0\<rparr>
      in if pid s0 = 0 then Child_execs_shell ws else Parent_runs_loop ws s0)"

text \<open>The window size the thread hands to \<open>forkpty\<close>.\<close>

definition forkpty_window :: "thread_start \<Rightarrow> winsize" where
  "forkpty_window start = (case start of Child_execs_shell ws \<Rightarrow> ws | Parent_runs_loop ws s \<Rightarrow> ws)"

text \<open>
  The globals before the thread starts, all zero; \<open>n\<close> is \<open>sizeof(command_buffer)\<close>, which
  a header outside the source file fixes.
\<close>

definition startup_globals :: "nat \<Rightarrow> tty_state" where
  "startup_globals n =
     \<lparr>pid = 0, tty_fd = 0, terminal_buffer = [], term_needs_update = False,
      entered_command = None, cut_terminal = None, tmp_length = 0,
      sig_int_sent = False, command_ready_to_send = False,
      command_buffer = replicate n NUL, command_buffer_pos = 0, command_buffer_length = 0\<rparr>"

definition startup_console :: console_state where
  "startup_console =
     \<lparr>current_fd = - 1, original_mode = KD_TEXT, original_kb_mode = K_UNICODE,
      console_kb_mode = K_UNICODE, console_mode = KD_TEXT, warnings = [], thread_arg = None\<rparr>"

text \<open>
  \<open>tty_dimen->width\<close> and \<open>tty_dimen->height\<close> in the thread: \<open>tty_dimen\<close> is the
  address of \<open>dimen\<close>, an automatic variable of
  \<open>ul_terminal_prepare_current_terminal\<close>, which returns without waiting for the thread
  (the \<open>pthread_join\<close> is commented out). The thread reads what \<open>dimen\<close> held only when
  it reads before that return.
\<close>

definition thread_reads_dimen :: "system_calls \<Rightarrow> term_dimen \<Rightarrow> term_dimen" where
  "thread_reads_dimen E dimen = (case dimen_slot E of None \<Rightarrow> dimen | Some found \<Rightarrow> found)"

text \<open>
  \<open>prepare\<close> together with the thread it starts: the result of the call, the console, and
  how the thread starts when there is one.
\<close>

definition prepare_session ::
  "system_calls \<Rightarrow> tty_state \<Rightarrow> int \<Rightarrow> int \<Rightarrow> console_state \<Rightarrow> bool \<times> console_state \<times> thread_start option" where
  "prepare_session E globals term_width term_height w =
     (let (ok, w1) = ul_terminal_prepare_current_terminal E term_width term_height w
      in (ok, w1,
          map_option (\<lambda>dimen. tty_thread_start (forkpty_result E) globals (thread_reads_dimen E dimen))
            (thread_arg w1)))"

section \<open>A stripper for concrete runs\<close>

text \<open>
  Modelled from the spec: \<open>remove_escape_codes\<close> is declared in \<open>termstr.h\<close> and its
  code is not part of the source file. The spec describes it as a pure function that
  removes the recognised control/escape sequences, shifts the following bytes left, and
  strips an unterminated sequence up to the end of the buffer. \<open>strip_from\<close> does that for
  the sequences ESC \<open>[\<close> ... final byte and ESC followed by one byte. The theorems below
  hold for every \<open>remove_escape_codes\<close>; this one only instantiates them on concrete
  buffers.
\<close>

datatype strip_mode = Plain | After_esc | In_csi

fun strip_from :: "strip_mode \<Rightarrow> string \<Rightarrow> string" where
  "strip_from m [] = []"
| "strip_from Plain (c # cs) =
     (if c = CHR 0x1B then strip_from After_esc cs else c # strip_from Plain cs)"
| "strip_from After_esc (c # cs) =
     (if c = CHR ''['' then strip_from In_csi cs else strip_from Plain cs)"
| "strip_from In_csi (c # cs) =
     (if 64 \<le> (of_char c :: nat) \<and> (of_char c :: nat) \<le> 126
      then strip_from Plain cs else strip_from In_csi cs)"

text \<open>
  The usable size of a block of glibc on a 64-bit system: the request and the 8 bytes of
  the allocator's record, rounded up to a multiple of 16, less those 8 bytes, and 24 at
  least. A block of \<open>malloc(24)\<close> has 24 bytes, and the size of the next block stands right
  behind it.
\<close>

definition glibc_usable_size :: "nat \<Rightarrow> nat" where
  "glibc_usable_size n = max 24 ((n + 8 + 15) div 16 * 16 - 8)"

definition example_platform :: platform where
  "example_platform =
     \<lparr>BUFFER_SIZE = 1024, remove_escape_codes = strip_from Plain,
      malloc_usable_size = glibc_usable_size\<rparr>"

section \<open>The specification's reading of a read cycle\<close>

text \<open>
  The specification's condition for genuine new output, in its words: there is no
  outstanding EchoWindow, or the EchoWindow text is empty, or the leading
  length(EchoWindow) bytes of the newly read data do not exactly equal the EchoWindow text.
\<close>

definition genuine_output_spec :: "string option \<Rightarrow> string \<Rightarrow> bool" where
  "genuine_output_spec echo_window data =
     (case echo_window of
        None \<Rightarrow> True
      | Some text \<Rightarrow> text = [] \<or> take (length text) data \<noteq> text)"

text \<open>
  Between two iterations \<open>cut_terminal\<close> is NULL, and a command that waits for its echo
  is a C string of the recorded length: it holds no NUL byte.
\<close>

definition echo_window_ok :: "tty_state \<Rightarrow> bool" where
  "echo_window_ok s =
     (cut_terminal s = None \<and>
      (case entered_command s of
         None \<Rightarrow> True
       | Some ec \<Rightarrow> NUL \<notin> set ec \<and> tmp_length s = int (length ec)))"

text \<open>
  The command the user interface has staged fits its array and holds no NUL byte in its
  recorded length.
\<close>

definition command_ok :: "tty_state \<Rightarrow> bool" where
  "command_ok s =
     (command_buffer_length s \<le> length (command_buffer s) \<and>
      NUL \<notin> set (take (command_buffer_length s) (command_buffer s)))"

text \<open>
  What \<open>pgrep -P\<close> prints for a shell with the given children: one process id per line.
\<close>

definition pgrep_lines :: "int list \<Rightarrow> string" where
  "pgrep_lines children = concat (map (\<lambda>c. sprintf_d c @ [CHR 0x0A]) children)"

text \<open>The events that read from or write to the pseudo-terminal.\<close>

definition is_io :: "event \<Rightarrow> bool" where
  "is_io e = (case e of Read_tty fd n \<Rightarrow> True | Write_tty fd bs \<Rightarrow> True | _ \<Rightarrow> False)"

section \<open>Concrete sessions\<close>

text \<open>
  Modelled from the spec: \<open>submit_command(text, length)\<close> belongs to the user interface,
  whose code is not part of the source file. It hands a command to the Command Staging
  Buffer: the text at the start of the array, its byte length, and the ready flag.
\<close>

definition submit_command :: "string \<Rightarrow> tty_state \<Rightarrow> tty_state" where
  "submit_command text s =
     s\<lparr>command_buffer := text @ replicate (length (command_buffer s) - length text) NUL,
       command_buffer_length := length text,
       command_ready_to_send := True\<rparr>"

text \<open>
  A session whose shell is process 77 behind descriptor 5, that session once a command has
  been sent, and the answers of \<open>poll\<close>, \<open>read\<close> and the allocator for one iteration:
  \<open>!\<close> is the low byte of the size glibc records in front of a block of 24 bytes.
\<close>

definition example_session :: tty_state where
  "example_session = (startup_globals 8)\<lparr>pid := 77, tty_fd := 5\<rparr>"

definition awaiting_echo :: "string \<Rightarrow> tty_state" where
  "awaiting_echo text = snd (send_command (submit_command text example_session))"

definition readable :: "string \<Rightarrow> iteration_input" where
  "readable bytes =
     \<lparr>revents = POLLIN OR POLLOUT, pgrep_output = None, read_result = Read_bytes bytes,
      behind_entered_command = ''!''\<rparr>"

definition writable :: iteration_input where
  "writable =
     \<lparr>revents = POLLOUT, pgrep_output = None, read_result = Read_error,
      behind_entered_command = ''!''\<rparr>"

text \<open>
  A session whose command array has 64 bytes, a command of 24 bytes, and that session once
  the command has been sent.
\<close>

definition long_session :: tty_state where
  "long_session = (startup_globals 64)\<lparr>pid := 77, tty_fd := 5\<rparr>"

definition long_command :: string where
  "long_command = ''echo 0123456789 abcdefgh''"

definition awaiting_long_echo :: tty_state where
  "awaiting_long_echo = snd (send_command (submit_command long_command long_session))"

text \<open>
  An iteration with an interrupt to deliver to the given children; a system where every
  call succeeds, one where only \<open>forkpty\<close> fails, and one where only the \<open>KDGETMODE\<close>
  request fails. In each the thread gets to read \<open>dimen\<close> after the return, and finds
  zeros.
\<close>

definition interrupted :: "int list \<Rightarrow> iteration_input" where
  "interrupted children =
     \<lparr>revents = POLLIN OR POLLOUT, pgrep_output = Some (pgrep_lines children),
      read_result = Read_bytes ''^C'', behind_entered_command = ''!''\<rparr>"

definition thread_runs_late :: system_calls where
  "thread_runs_late =
     \<lparr>open_result = 3, ioctl_fails = (\<lambda>request. False), pthread_create_result = 0,
      forkpty_result = Forkpty_parent 77 5, dimen_slot = Some \<lparr>width = 0, height = 0\<rparr>\<rparr>"

definition failing_forkpty :: system_calls where
  "failing_forkpty =
     \<lparr>open_result = 3, ioctl_fails = (\<lambda>request. False), pthread_create_result = 0,
      forkpty_result = Forkpty_failed, dimen_slot = Some \<lparr>width = 0, height = 0\<rparr>\<rparr>"

definition failing_KDGETMODE :: system_calls where
  "failing_KDGETMODE =
     \<lparr>open_result = 3, ioctl_fails = (\<lambda>request. request = KDGETMODE), pthread_create_result = 0,
      forkpty_result = Forkpty_parent 77 5, dimen_slot = Some \<lparr>width = 0, height = 0\<rparr>\<rparr>"

lemmas example_defs = example_platform_def example_session_def awaiting_echo_def readable_def
  writable_def submit_command_def send_command_def startup_globals_def POLLIN_def POLLOUT_def
  memcpy_def malloc_copy_def behind_after_malloc_def echo_window_ok_def genuine_output_spec_def
  cstr_def strlen_def block_size_def glibc_usable_size_def heap_string_def

lemmas iteration_defs = loop_iteration_def handle_interrupt_def read_cycle_def tty_read_def
  copy_cut_terminal_def echo_decision_def suppress_echo_def free_echo_window_def
  size_t_sub_def int_of_size_t_def Let_def

lemmas prepare_defs = ul_terminal_prepare_current_terminal_def reopen_current_terminal_def
  close_current_terminal_def ioctl_def ul_log_warning_def Let_def

section \<open>Facts about C strings and integers\<close>

lemma of_char_NUL: "(of_char NUL :: nat) = 0"
  by simp

lemma of_char_eq_0_iff: "(of_char c :: nat) = 0 \<longleftrightarrow> c = NUL"
proof
  assume "(of_char c :: nat) = 0"
  then have "(of_char c :: nat) = of_char NUL" by simp
  then show "c = NUL" by (rule of_char_eqI)
qed simp

lemma of_char_diff_eq_0_iff: "int (of_char a) - int (of_char b) = 0 \<longleftrightarrow> a = b"
  by simp

lemma cstr_Nil: "cstr [] = []"
  by (simp add: cstr_def)

lemma cstr_Cons: "cstr (c # cs) = (if c = NUL then [] else c # cstr cs)"
  by (simp add: cstr_def)

lemma strcmp_eq_0_iff: "strcmp a b = 0 \<longleftrightarrow> cstr a = cstr b"
proof (induction a b rule: strcmp.induct)
  case 1
  show ?case by simp
next
  case (2 a as)
  show ?case by (simp add: cstr_Nil cstr_Cons of_char_eq_0_iff)
next
  case (3 b bs)
  show ?case by (simp add: cstr_Nil cstr_Cons of_char_eq_0_iff)
next
  case (4 a as b bs)
  have pos: "0 < (of_char c :: nat) \<longleftrightarrow> c \<noteq> NUL" for c
    using of_char_eq_0_iff [of c] by auto
  from 4 show ?case by (simp add: cstr_Cons pos)
qed

lemma cstr_no_NUL: "NUL \<notin> set bs \<Longrightarrow> cstr bs = bs"
  by (auto simp: cstr_def)

lemma cstr_eq_take: "cstr bs = take (strlen bs) bs"
  unfolding cstr_def strlen_def by (rule takeWhile_eq_take)

lemma strlen_le: "strlen bs \<le> length bs"
  by (simp add: strlen_def cstr_def length_takeWhile_le)

lemma strlen_no_NUL: "NUL \<notin> set bs \<Longrightarrow> strlen bs = length bs"
  by (simp add: strlen_def cstr_no_NUL)

lemma cstr_take_eq_iff:
  assumes "NUL \<notin> set ec"
  shows "cstr (take (length ec) data) = ec \<longleftrightarrow> take (length ec) data = ec"
proof
  assume eq: "cstr (take (length ec) data) = ec"
  have "length (take (length ec) data) \<le> length ec" by simp
  moreover have "cstr (take (length ec) data) = take (strlen (take (length ec) data)) (take (length ec) data)"
    by (rule cstr_eq_take)
  moreover from eq have "strlen (take (length ec) data) = length ec"
    by (simp add: strlen_def)
  ultimately show "take (length ec) data = ec" using eq by simp
next
  assume "take (length ec) data = ec"
  with assms show "cstr (take (length ec) data) = ec" by (simp add: cstr_no_NUL)
qed

lemma int_of_size_t_sub:
  assumes "a < 2 ^ 31" and "b < 2 ^ 31"
  shows "int_of_size_t (size_t_sub a b) = int a - int b"
proof -
  let ?d = "int a - int b"
  have bounds: "- (2 ^ 31) < ?d" "?d < 2 ^ 31" using assms by simp_all
  have "(?d mod 2 ^ 64 + 2 ^ 31) mod 2 ^ 32 = (?d + 2 ^ 31) mod 2 ^ 32"
  proof -
    have "(?d mod 2 ^ 64 + 2 ^ 31) mod 2 ^ 32 = ((?d mod 2 ^ 64) mod 2 ^ 32 + 2 ^ 31) mod 2 ^ 32"
      by (simp add: mod_add_left_eq)
    also have "(?d mod 2 ^ 64) mod 2 ^ 32 = ?d mod 2 ^ 32"
      by (rule mod_mod_cancel) simp
    also have "(?d mod 2 ^ 32 + 2 ^ 31) mod 2 ^ 32 = (?d + 2 ^ 31) mod 2 ^ 32"
      by (simp add: mod_add_left_eq)
    finally show ?thesis .
  qed
  moreover have "(?d + 2 ^ 31) mod 2 ^ 32 = ?d + 2 ^ 31"
    using bounds by (intro mod_pos_pos_trivial) simp_all
  ultimately show ?thesis by (simp add: int_of_size_t_def size_t_sub_def)
qed

section \<open>Facts about the read cycle\<close>

lemma handle_interrupt_state: "snd (handle_interrupt inp s) = s\<lparr>sig_int_sent := False\<rparr>"
  by (simp add: handle_interrupt_def)

lemma heap_string_in_block:
  "length ec < block_size P (length ec) \<Longrightarrow> heap_string P behind ec = ec"
  by (simp add: heap_string_def)

lemma heap_string_untouched: "heap_string P [] ec = ec"
  by (simp add: heap_string_def)

lemma strlen_heap_string_0: "strlen (heap_string P behind ec) = 0 \<longleftrightarrow> strlen ec = 0"
proof (cases "length ec < block_size P (length ec)")
  case True
  then show ?thesis by (simp add: heap_string_def)
next
  case False
  then have "ec \<noteq> []" by (auto simp: block_size_def)
  then obtain c cs where "ec = c # cs" by (cases ec) auto
  with False show ?thesis by (simp add: heap_string_def strlen_def cstr_Cons)
qed

lemma strlen_heap_string_pos: "0 < strlen (heap_string P behind ec) \<longleftrightarrow> 0 < strlen ec"
  using strlen_heap_string_0 [of P behind ec] by auto

lemma cstr_append_no_NUL: "NUL \<notin> set bs \<Longrightarrow> cstr (bs @ cs) = bs @ cstr cs"
  by (induction bs) (auto simp: cstr_def)

lemma read_cycle_bytes:
  assumes "length data < BUFFER_SIZE P"
  shows "read_cycle P (Read_bytes data) behind s =
           ([Read_tty (tty_fd s) (BUFFER_SIZE P)],
            Inr (free_echo_window P (if tmp_length s \<noteq> 0 then behind else [])
                  (echo_decision P (if tmp_length s \<noteq> 0 then behind else [])
                    (copy_cut_terminal (s\<lparr>terminal_buffer := data\<rparr>)))))"
  using assms by (simp add: read_cycle_def tty_read_def behind_after_malloc_def Let_def)

lemma loop_iteration_read:
  assumes "revents inp AND POLLIN \<noteq> 0" and "\<not> term_needs_update s"
    and "read_result inp = Read_bytes data" and "length data < BUFFER_SIZE P"
  shows "loop_iteration P inp s =
           ([Mutex_lock, Poll (tty_fd s) 10, Usleep 100] @ fst (handle_interrupt inp s) @
              [Read_tty (tty_fd s) (BUFFER_SIZE P), Mutex_unlock],
            Inr (free_echo_window P (if tmp_length s \<noteq> 0 then behind_entered_command inp else [])
                  (echo_decision P (if tmp_length s \<noteq> 0 then behind_entered_command inp else [])
                    (copy_cut_terminal (s\<lparr>sig_int_sent := False, terminal_buffer := data\<rparr>)))))"
proof -
  obtain sg s1 where h: "handle_interrupt inp s = (sg, s1)" by (cases "handle_interrupt inp s")
  then have s1: "s1 = s\<lparr>sig_int_sent := False\<rparr>"
    using handle_interrupt_state [of inp s] by simp
  show ?thesis
    using assms by (simp add: loop_iteration_def h s1 read_cycle_bytes)
qed

lemma echo_decision_spec:
  assumes "echo_window_ok s"
    and "case entered_command s of None \<Rightarrow> True | Some ec \<Rightarrow> heap_string P behind ec = ec"
  shows "echo_decision P behind (copy_cut_terminal (s\<lparr>terminal_buffer := data\<rparr>)) =
           (case entered_command s of
              None \<Rightarrow> (copy_cut_terminal (s\<lparr>terminal_buffer := data\<rparr>))\<lparr>term_needs_update := True\<rparr>
            | Some ec \<Rightarrow>
                if genuine_output_spec (entered_command s) data
                then (copy_cut_terminal (s\<lparr>terminal_buffer := data\<rparr>))\<lparr>term_needs_update := True\<rparr>
                else suppress_echo P ec (copy_cut_terminal (s\<lparr>terminal_buffer := data\<rparr>)))"
proof (cases "entered_command s")
  case None
  then show ?thesis by (simp add: echo_decision_def copy_cut_terminal_def)
next
  case (Some ec)
  with assms have ok: "NUL \<notin> set ec" "tmp_length s = int (length ec)" "cut_terminal s = None"
    and hs: "heap_string P behind ec = ec"
    by (simp_all add: echo_window_ok_def)
  show ?thesis
  proof (cases "ec = []")
    case True
    with Some ok show ?thesis
      by (simp add: echo_decision_def copy_cut_terminal_def genuine_output_spec_def)
  next
    case False
    from ok have len: "strlen ec = length ec" by (simp add: strlen_no_NUL)
    from ok have c: "cstr ec = ec" by (simp add: cstr_no_NUL)
    have "strcmp ec (take (length ec) data) = 0 \<longleftrightarrow> take (length ec) data = ec"
      using cstr_take_eq_iff [OF ok(1), of data] by (auto simp: strcmp_eq_0_iff c)
    moreover have "strcmp ec ec = 0" by (simp add: strcmp_eq_0_iff)
    ultimately show ?thesis using Some ok False len hs
      by (simp add: echo_decision_def copy_cut_terminal_def genuine_output_spec_def malloc_copy_def memcpy_def)
  qed
qed

text \<open>
  The slip of lines 199 to 201: when the terminator of the command on record was written
  behind its block and the allocator has put a byte other than NUL there, the comparison
  of line 175 fails whatever the read returned.
\<close>

lemma echo_decision_overwritten:
  assumes "echo_window_ok s" and "entered_command s = Some ec" and "ec \<noteq> []"
    and "block_size P (length ec) \<le> length ec" and "cstr behind \<noteq> []"
  shows "echo_decision P behind (copy_cut_terminal (s\<lparr>terminal_buffer := data\<rparr>)) =
           (copy_cut_terminal (s\<lparr>terminal_buffer := data\<rparr>))\<lparr>term_needs_update := True\<rparr>"
proof -
  from assms(1,2) have ok: "NUL \<notin> set ec" "tmp_length s = int (length ec)" "cut_terminal s = None"
    by (simp_all add: echo_window_ok_def)
  have hs: "heap_string P behind ec = ec @ behind"
    using assms(4) by (simp add: heap_string_def)
  have c: "cstr (ec @ behind) = ec @ cstr behind"
    using ok(1) by (rule cstr_append_no_NUL)
  have "length (cstr (take (length ec) data)) \<le> length ec"
    using strlen_le [of "take (length ec) data"] by (simp add: strlen_def)
  moreover have "length (cstr (ec @ behind)) > length ec"
    using assms(5) by (simp add: c)
  ultimately have "cstr (ec @ behind) \<noteq> cstr (take (length ec) data)" by auto
  then have "strcmp (ec @ behind) (take (length ec) data) \<noteq> 0"
    by (simp add: strcmp_eq_0_iff)
  with assms(2,3) ok hs show ?thesis
    by (simp add: echo_decision_def copy_cut_terminal_def malloc_copy_def memcpy_def)
qed

lemma free_echo_window_fields:
  "terminal_buffer (free_echo_window P behind s) = terminal_buffer s"
  "term_needs_update (free_echo_window P behind s) = term_needs_update s"
  "cut_terminal (free_echo_window P behind s) = None"
  "entered_command (free_echo_window P behind s) =
     (case entered_command s of None \<Rightarrow> None | Some ec \<Rightarrow> if strlen ec > 0 then None else Some ec)"
  by (auto simp: free_echo_window_def Let_def strlen_heap_string_pos split: option.splits)

lemma suppress_echo_fields:
  "entered_command (suppress_echo P ec s) = entered_command s"
  "cut_terminal (suppress_echo P ec s) = cut_terminal s"
  by (simp_all add: suppress_echo_def Let_def)

lemma echo_decision_fields:
  "entered_command (echo_decision P behind s) = entered_command s"
  "cut_terminal (echo_decision P behind s) = cut_terminal s"
  by (simp_all add: echo_decision_def suppress_echo_fields split: option.splits)

lemma copy_cut_terminal_fields:
  "entered_command (copy_cut_terminal s) = entered_command s"
  "terminal_buffer (copy_cut_terminal s) = terminal_buffer s"
  "term_needs_update (copy_cut_terminal s) = term_needs_update s"
  by (simp_all add: copy_cut_terminal_def)

lemma suppress_echo_output:
  "terminal_buffer (suppress_echo P ec (s\<lparr>cut_terminal := c\<rparr>)) = terminal_buffer (suppress_echo P ec s)"
  "term_needs_update (suppress_echo P ec (s\<lparr>cut_terminal := c\<rparr>)) = term_needs_update (suppress_echo P ec s)"
  "terminal_buffer (suppress_echo P ec (s\<lparr>sig_int_sent := b\<rparr>)) = terminal_buffer (suppress_echo P ec s)"
  "term_needs_update (suppress_echo P ec (s\<lparr>sig_int_sent := b\<rparr>)) = term_needs_update (suppress_echo P ec s)"
  by (simp_all add: suppress_echo_def Let_def)

lemma suppress_echo_result:
  assumes "strlen (remove_escape_codes P (cstr (terminal_buffer s))) < 2 ^ 31" and "strlen ec < 2 ^ 31"
  shows "suppress_echo P ec s =
           (if strlen ec + 2 < strlen (remove_escape_codes P (cstr (terminal_buffer s)))
            then s\<lparr>terminal_buffer := drop (strlen ec) (cstr (remove_escape_codes P (cstr (terminal_buffer s)))),
                   term_needs_update := True\<rparr>
            else s\<lparr>terminal_buffer := remove_escape_codes P (cstr (terminal_buffer s))\<rparr>)"
proof -
  let ?st = "remove_escape_codes P (cstr (terminal_buffer s))"
  have cs: "int_of_size_t (size_t_sub (strlen ?st) (strlen ec)) = int (strlen ?st) - int (strlen ec)"
    using assms by (rule int_of_size_t_sub)
  have "take (strlen ?st - strlen ec) (drop (strlen ec) ?st) = drop (strlen ec) (take (strlen ?st) ?st)"
    by (simp add: drop_take)
  also have "\<dots> = drop (strlen ec) (cstr ?st)"
    by (simp add: cstr_eq_take [symmetric])
  finally have m: "take (strlen ?st - strlen ec) (drop (strlen ec) ?st) = drop (strlen ec) (cstr ?st)" .
  have n: "nat (int (strlen ?st) - int (strlen ec)) = strlen ?st - strlen ec" by simp
  show ?thesis
    by (simp add: suppress_echo_def Let_def cs memcpy_def n m)
qed

lemma suppress_echo_not_full:
  assumes "\<not> term_needs_update s" and "0 < strlen ec" and "strlen ec \<le> length (terminal_buffer s)"
    and "length (remove_escape_codes P (cstr (terminal_buffer s))) \<le> length (terminal_buffer s)"
  shows "\<not> (terminal_buffer (suppress_echo P ec s) = terminal_buffer s \<and> term_needs_update (suppress_echo P ec s))"
proof
  let ?st = "remove_escape_codes P (cstr (terminal_buffer s))"
  let ?k = "int_of_size_t (size_t_sub (strlen ?st) (strlen ec))"
  assume a: "terminal_buffer (suppress_echo P ec s) = terminal_buffer s \<and> term_needs_update (suppress_echo P ec s)"
  show False
  proof (cases "?k - 2 > 0")
    case True
    then have "terminal_buffer (suppress_echo P ec s) = take (nat ?k) (drop (strlen ec) ?st)"
      by (simp add: suppress_echo_def Let_def memcpy_def)
    then have "length (terminal_buffer (suppress_echo P ec s)) \<le> length ?st - strlen ec" by simp
    moreover from a have "length (terminal_buffer (suppress_echo P ec s)) = length (terminal_buffer s)" by simp
    ultimately show False using assms by linarith
  next
    case False
    then have "term_needs_update (suppress_echo P ec s) = term_needs_update s"
      by (simp add: suppress_echo_def Let_def)
    with a assms show False by simp
  qed
qed

lemma read_state_output:
  assumes "echo_window_ok s"
    and "case entered_command s of None \<Rightarrow> True | Some ec \<Rightarrow> heap_string P behind ec = ec"
  shows "terminal_buffer (free_echo_window P behind (echo_decision P behind (copy_cut_terminal
            (s\<lparr>sig_int_sent := False, terminal_buffer := data\<rparr>)))) =
          (case entered_command s of
             None \<Rightarrow> data
           | Some ec \<Rightarrow> if genuine_output_spec (entered_command s) data then data
                        else terminal_buffer (suppress_echo P ec (s\<lparr>terminal_buffer := data\<rparr>)))"
    and "term_needs_update (free_echo_window P behind (echo_decision P behind (copy_cut_terminal
            (s\<lparr>sig_int_sent := False, terminal_buffer := data\<rparr>)))) =
          (case entered_command s of
             None \<Rightarrow> True
           | Some ec \<Rightarrow> if genuine_output_spec (entered_command s) data then True
                        else term_needs_update (suppress_echo P ec (s\<lparr>terminal_buffer := data\<rparr>)))"
proof -
  let ?s = "s\<lparr>sig_int_sent := False\<rparr>"
  have ok: "echo_window_ok ?s" using assms(1) by (simp add: echo_window_ok_def split: option.splits)
  have hs: "case entered_command ?s of None \<Rightarrow> True | Some ec \<Rightarrow> heap_string P behind ec = ec"
    using assms(2) by simp
  have so: "terminal_buffer (suppress_echo P ec (copy_cut_terminal (?s\<lparr>terminal_buffer := data\<rparr>))) =
              terminal_buffer (suppress_echo P ec (s\<lparr>terminal_buffer := data\<rparr>))"
    "term_needs_update (suppress_echo P ec (copy_cut_terminal (?s\<lparr>terminal_buffer := data\<rparr>))) =
              term_needs_update (suppress_echo P ec (s\<lparr>terminal_buffer := data\<rparr>))" for ec
    by (simp_all add: copy_cut_terminal_def suppress_echo_def Let_def)
  show "terminal_buffer (free_echo_window P behind (echo_decision P behind (copy_cut_terminal
            (s\<lparr>sig_int_sent := False, terminal_buffer := data\<rparr>)))) =
          (case entered_command s of
             None \<Rightarrow> data
           | Some ec \<Rightarrow> if genuine_output_spec (entered_command s) data then data
                        else terminal_buffer (suppress_echo P ec (s\<lparr>terminal_buffer := data\<rparr>)))"
    unfolding free_echo_window_fields echo_decision_spec [OF ok hs]
    by (simp add: so copy_cut_terminal_fields split: option.splits)
  show "term_needs_update (free_echo_window P behind (echo_decision P behind (copy_cut_terminal
            (s\<lparr>sig_int_sent := False, terminal_buffer := data\<rparr>)))) =
          (case entered_command s of
             None \<Rightarrow> True
           | Some ec \<Rightarrow> if genuine_output_spec (entered_command s) data then True
                        else term_needs_update (suppress_echo P ec (s\<lparr>terminal_buffer := data\<rparr>)))"
    unfolding free_echo_window_fields echo_decision_spec [OF ok hs]
    by (simp add: so copy_cut_terminal_fields split: option.splits)
qed


lemma sig_int_sent_read:
  "sig_int_sent (free_echo_window P behind (echo_decision P behind (copy_cut_terminal s))) = sig_int_sent s"
  by (simp add: free_echo_window_def echo_decision_def copy_cut_terminal_def suppress_echo_def Let_def
      split: option.splits)

lemma read_cycle_cases:
  "read_cycle P rd behind s = ([Read_tty (tty_fd s) (BUFFER_SIZE P)], r) \<Longrightarrow>
   (\<forall>s'. r = Inr s' \<longrightarrow> sig_int_sent s' = sig_int_sent s)"
  by (auto simp: read_cycle_def Let_def sig_int_sent_read split: prod.splits if_splits)

lemma read_keeps_fields:
  "tmp_length (free_echo_window P behind (echo_decision P behind (copy_cut_terminal s))) = tmp_length s"
  "command_buffer (free_echo_window P behind (echo_decision P behind (copy_cut_terminal s))) = command_buffer s"
  "command_buffer_length (free_echo_window P behind (echo_decision P behind (copy_cut_terminal s))) =
     command_buffer_length s"
  by (simp_all add: free_echo_window_def echo_decision_def copy_cut_terminal_def suppress_echo_def Let_def
      split: option.splits)

section \<open>Facts about the events of an iteration\<close>

lemma is_io_simps:
  "is_io (Read_tty fd n)" "is_io (Write_tty fd bs)" "\<not> is_io (Kill p sg)" "\<not> is_io (Popen c)"
  "\<not> is_io Pclose" "\<not> is_io Mutex_lock" "\<not> is_io Mutex_unlock" "\<not> is_io (Poll fd t)"
  "\<not> is_io (Usleep t)"
  by (simp_all add: is_io_def)

lemma kill_lines_no_io: "filter is_io (kill_lines stream) = []"
proof (induction stream rule: kill_lines.induct)
  case (1 stream)
  show ?case
  proof (cases "fgets 20 stream")
    case None
    then show ?thesis by (simp add: kill_lines.simps [of stream])
  next
    case (Some lr)
    obtain line rest where lr: "lr = (line, rest)" by (cases lr)
    with Some 1 have "filter is_io (kill_lines rest) = []" by simp
    with Some lr show ?thesis by (simp add: kill_lines.simps [of stream] is_io_simps)
  qed
qed

lemma handle_interrupt_no_io: "filter is_io (fst (handle_interrupt inp s)) = []"
  by (simp add: handle_interrupt_def run_kill_child_pids_def kill_lines_no_io is_io_simps
      split: option.splits)

lemma loop_iteration_io:
  "filter is_io (fst (loop_iteration P inp s)) =
     (if revents inp AND POLLIN \<noteq> 0 \<and> \<not> term_needs_update s
      then [Read_tty (tty_fd s) (BUFFER_SIZE P)]
      else if revents inp AND POLLOUT \<noteq> 0 \<and> command_ready_to_send s
      then [Write_tty (tty_fd s) (command_buffer s)]
      else [])"
proof -
  obtain sg s1 where h: "handle_interrupt inp s = (sg, s1)" by (cases "handle_interrupt inp s")
  then have s1: "s1 = s\<lparr>sig_int_sent := False\<rparr>"
    using handle_interrupt_state [of inp s] by simp
  from h have sg: "filter is_io sg = []"
    using handle_interrupt_no_io [of inp s] by simp
  obtain io r where
    rc: "read_cycle P (read_result inp) (behind_entered_command inp) (s\<lparr>sig_int_sent := False\<rparr>) = (io, r)"
    by (cases "read_cycle P (read_result inp) (behind_entered_command inp) (s\<lparr>sig_int_sent := False\<rparr>)")
  then have io: "io = [Read_tty (tty_fd s) (BUFFER_SIZE P)]"
    by (auto simp: read_cycle_def Let_def split: prod.splits)
  show ?thesis
    by (cases r) (simp_all add: loop_iteration_def h s1 rc io sg send_command_def is_io_simps)
qed

lemma loop_iteration_trace:
  "\<exists>io r. loop_iteration P inp s =
            ([Mutex_lock, Poll (tty_fd s) 10, Usleep 100] @ fst (handle_interrupt inp s) @ io, r) \<and>
          (\<forall>e\<in>set io. is_io e \<or> e = Mutex_unlock) \<and>
          (\<forall>s'. r = Inr s' \<longrightarrow> \<not> sig_int_sent s')"
proof -
  obtain sg s1 where h: "handle_interrupt inp s = (sg, s1)" by (cases "handle_interrupt inp s")
  then have s1: "s1 = s\<lparr>sig_int_sent := False\<rparr>"
    using handle_interrupt_state [of inp s] by simp
  obtain io r where
    rc: "read_cycle P (read_result inp) (behind_entered_command inp) (s\<lparr>sig_int_sent := False\<rparr>) = (io, r)"
    by (cases "read_cycle P (read_result inp) (behind_entered_command inp) (s\<lparr>sig_int_sent := False\<rparr>)")
  then have io: "io = [Read_tty (tty_fd s) (BUFFER_SIZE P)]"
    by (auto simp: read_cycle_def Let_def split: prod.splits)
  from rc io have keep: "\<forall>s'. r = Inr s' \<longrightarrow> \<not> sig_int_sent s'"
    using read_cycle_cases [of P "read_result inp" "behind_entered_command inp" "s\<lparr>sig_int_sent := False\<rparr>" r]
    by simp
  show ?thesis
  proof (cases "revents inp AND POLLIN \<noteq> 0 \<and> \<not> term_needs_update s")
    case True
    show ?thesis
    proof (cases r)
      case (Inl f)
      with True show ?thesis
        by (simp add: loop_iteration_def h s1 rc io is_io_simps)
    next
      case (Inr s2)
      with True keep show ?thesis
        by (simp add: loop_iteration_def h s1 rc io is_io_simps)
    qed
  next
    case False
    then show ?thesis
      by (auto simp add: loop_iteration_def h s1 send_command_def is_io_simps Let_def)
  qed
qed

section \<open>Facts about the output of \<open>pgrep\<close>\<close>

lemma digit_char_value: "d < 10 \<Longrightarrow> (of_char (digit_char d) :: nat) = 48 + d"
  by (simp add: digit_char_def)

lemma isdigit_digit_char: "d < 10 \<Longrightarrow> isdigit (digit_char d)"
  by (simp add: isdigit_def digit_char_value)

lemma dec_digits_isdigit: "c \<in> set (dec_digits n) \<Longrightarrow> isdigit c"
proof (induction n rule: dec_digits.induct)
  case (1 n)
  show ?case
  proof (cases "n < 10")
    case True
    with "1.prems" show ?thesis by (simp add: dec_digits.simps [of n] isdigit_digit_char)
  next
    case False
    with "1.prems" have "c \<in> set (dec_digits (n div 10)) \<or> c = digit_char (n mod 10)"
      by (auto simp add: dec_digits.simps [of n])
    then show ?thesis
    proof
      assume "c \<in> set (dec_digits (n div 10))"
      with False "1.IH" show ?thesis by simp
    next
      assume "c = digit_char (n mod 10)"
      then show ?thesis by (simp add: isdigit_digit_char)
    qed
  qed
qed

lemma dec_digits_not_Nil: "dec_digits n \<noteq> []"
  by (simp add: dec_digits.simps [of n])

lemma dec_digits_length: "n < 10 ^ k \<Longrightarrow> 0 < k \<Longrightarrow> length (dec_digits n) \<le> k"
proof (induction n arbitrary: k rule: dec_digits.induct)
  case (1 n)
  show ?case
  proof (cases "n < 10")
    case True
    with "1.prems" show ?thesis by (simp add: dec_digits.simps [of n])
  next
    case False
    from "1.prems" obtain j where k: "k = Suc j" by (cases k) auto
    with "1.prems" False have j: "0 < j" by (cases j) auto
    from "1.prems" k have d: "n div 10 < 10 ^ j" by (simp add: less_mult_imp_div_less mult.commute)
    have "length (dec_digits (n div 10)) \<le> j" by (rule "1.IH" [OF False d j])
    with False k show ?thesis by (simp add: dec_digits.simps [of n])
  qed
qed

lemma foldl_dec_digits:
  "foldl (\<lambda>acc c. acc * 10 + (int (of_char c) - 48)) 0 (dec_digits n) = int n"
proof (induction n rule: dec_digits.induct)
  case (1 n)
  show ?case
  proof (cases "n < 10")
    case True
    then show ?thesis by (simp add: dec_digits.simps [of n] digit_char_value)
  next
    case False
    with "1.IH" have "foldl (\<lambda>acc c. acc * 10 + (int (of_char c) - 48)) 0 (dec_digits (n div 10)) = int (n div 10)"
      by simp
    with False show ?thesis
      by (simp add: dec_digits.simps [of n] digit_char_value zdiv_int zmod_int)
  qed
qed

lemma isdigit_not_special:
  assumes "isdigit c"
  shows "c \<noteq> CHR 0x0A" "\<not> isspace c" "c \<noteq> CHR ''-''" "c \<noteq> CHR ''+''"
  using assms by (auto simp: isdigit_def isspace_def)

lemma newline_not_digit: "\<not> isdigit (CHR 0x0A)"
  by (simp add: isdigit_def)

lemma atoi_dec_digits_line: "atoi (dec_digits n @ [CHR 0x0A]) = int n"
proof -
  obtain c cs where d: "dec_digits n = c # cs"
    using dec_digits_not_Nil [of n] by (cases "dec_digits n") auto
  have dig: "\<forall>x\<in>set (dec_digits n). isdigit x" by (simp add: dec_digits_isdigit)
  with d have c: "isdigit c" by simp
  have tw: "takeWhile isdigit (dec_digits n @ [CHR 0x0A]) = dec_digits n"
    using dig by (simp add: takeWhile_append2 newline_not_digit)
  have "atoi (dec_digits n @ [CHR 0x0A]) = digits_value (dec_digits n @ [CHR 0x0A])"
    using isdigit_not_special [OF c] by (simp add: atoi_def d)
  also have "\<dots> = int n"
    by (simp only: digits_value_def tw foldl_dec_digits)
  finally show ?thesis .
qed

lemma fgets_split_line:
  "length line < k \<Longrightarrow> CHR 0x0A \<notin> set line \<Longrightarrow>
   fgets_split k (line @ CHR 0x0A # rest) = (line @ [CHR 0x0A], rest)"
proof (induction line arbitrary: k)
  case Nil
  then obtain j where "k = Suc j" by (cases k) auto
  then show ?case by simp
next
  case (Cons c line)
  then obtain j where k: "k = Suc j" by (cases k) auto
  with Cons.prems have "length line < j" "CHR 0x0A \<notin> set line" "c \<noteq> CHR 0x0A" by auto
  with Cons.IH [of j] k show ?case by simp
qed

lemma kill_lines_Nil: "kill_lines [] = []"
  by (simp add: kill_lines.simps [of "[]"] fgets_def)

lemma kill_lines_pgrep_lines:
  assumes "\<forall>c\<in>set children. 0 < c \<and> c < 2 ^ 31"
  shows "kill_lines (pgrep_lines children) = map (\<lambda>c. Kill c SIGINT) children"
  using assms
proof (induction children)
  case Nil
  show ?case by (simp add: pgrep_lines_def kill_lines_Nil)
next
  case (Cons c cs)
  then have c: "0 < c" "c < 2 ^ 31" by simp_all
  let ?line = "dec_digits (nat c)"
  have sp: "sprintf_d c = ?line" using c by (simp add: sprintf_d_def)
  have "nat c < 10 ^ 10" using c by simp
  then have "length ?line \<le> 10" by (rule dec_digits_length) simp
  then have len: "length ?line < 19" by simp
  have nl: "CHR 0x0A \<notin> set ?line"
    using dec_digits_isdigit isdigit_not_special(1) by blast
  have st: "pgrep_lines (c # cs) = ?line @ CHR 0x0A # pgrep_lines cs"
    by (simp add: pgrep_lines_def sp)
  have "fgets 20 (pgrep_lines (c # cs)) = Some (?line @ [CHR 0x0A], pgrep_lines cs)"
    using fgets_split_line [OF len nl, of "pgrep_lines cs"] dec_digits_not_Nil [of "nat c"]
    by (simp add: fgets_def st)
  then have "kill_lines (pgrep_lines (c # cs)) =
               Kill (atoi (?line @ [CHR 0x0A])) SIGINT # kill_lines (pgrep_lines cs)"
    by (simp add: kill_lines.simps [of "pgrep_lines (c # cs)"])
  with Cons c show ?case by (simp add: atoi_dec_digits_line)
qed

section \<open>The echo window between iterations\<close>

lemma echo_window_ok_after_read:
  assumes "echo_window_ok s"
  shows "echo_window_ok (free_echo_window P behind (echo_decision P behind (copy_cut_terminal s)))"
  using assms
  by (auto simp: echo_window_ok_def free_echo_window_fields echo_decision_fields
      copy_cut_terminal_fields read_keeps_fields split: option.splits if_splits)

lemma echo_window_ok_after_send:
  assumes "echo_window_ok s" and "command_ok s"
  shows "echo_window_ok (snd (send_command s))" and "command_ok (snd (send_command s))"
  using assms
  by (simp_all add: echo_window_ok_def command_ok_def send_command_def malloc_copy_def memcpy_def min_def)

lemma echo_window_ok_iteration:
  assumes "echo_window_ok s" and "command_ok s" and "snd (loop_iteration P inp s) = Inr s'"
  shows "echo_window_ok s' \<and> command_ok s'"
proof -
  let ?s1 = "s\<lparr>sig_int_sent := False\<rparr>"
  obtain sg s1 where h: "handle_interrupt inp s = (sg, s1)" by (cases "handle_interrupt inp s")
  then have s1: "s1 = ?s1"
    using handle_interrupt_state [of inp s] by simp
  have ok1: "echo_window_ok ?s1" "command_ok ?s1"
    using assms(1,2) by (simp_all add: echo_window_ok_def command_ok_def split: option.splits)
  show ?thesis
  proof (cases "revents inp AND POLLIN \<noteq> 0 \<and> \<not> term_needs_update s")
    case True
    obtain io r where rc: "read_cycle P (read_result inp) (behind_entered_command inp) ?s1 = (io, r)"
      by (cases "read_cycle P (read_result inp) (behind_entered_command inp) ?s1")
    with True assms(3) have r: "r = Inr s'"
      by (cases r) (simp_all add: loop_iteration_def h s1)
    with rc obtain t behind where
      s': "s' = free_echo_window P behind (echo_decision P behind (copy_cut_terminal t))"
      and t: "\<exists>bytes. t = ?s1\<lparr>terminal_buffer := bytes\<rparr>"
      by (auto simp: read_cycle_def Let_def split: prod.splits if_splits)
    from t ok1 have "echo_window_ok t" "command_ok t"
      by (auto simp: echo_window_ok_def command_ok_def split: option.splits)
    then show ?thesis
      unfolding s' using echo_window_ok_after_read [of t P behind]
      by (simp add: command_ok_def read_keeps_fields)
  next
    case False
    show ?thesis
    proof (cases "revents inp AND POLLOUT \<noteq> 0 \<and> command_ready_to_send s")
      case True
      with False assms(3) have "s' = snd (send_command ?s1)"
        by (auto simp add: loop_iteration_def h s1 Let_def split: prod.splits)
      with ok1 show ?thesis by (simp add: echo_window_ok_after_send)
    next
      case f2: False
      with False assms(3) have "s' = ?s1"
        by (auto simp add: loop_iteration_def h s1 Let_def)
      with ok1 show ?thesis by simp
    qed
  qed
qed

lemma echo_window_ok_startup:
  "tty_thread_start fk globals d = Parent_runs_loop ws s \<Longrightarrow> echo_window_ok s"
  by (auto simp: tty_thread_start_def Let_def echo_window_ok_def split: if_splits)

section \<open>Facts about console setup\<close>

text \<open>Restoring the keyboard mode is what \<open>ul_terminal_reset_current_terminal\<close> does.\<close>

lemma reset_restores_keyboard_mode:
  assumes "0 \<le> current_fd w" and "\<not> ioctl_fails E KDSKBMODE"
  shows "console_kb_mode (ul_terminal_reset_current_terminal E w) = original_kb_mode w"
  using assms
  by (simp add: ul_terminal_reset_current_terminal_def ioctl_def close_current_terminal_def
      ul_log_warning_def Let_def)

lemma forkpty_window_start: "forkpty_window (tty_thread_start fk globals d) = window_size d"
  by (simp add: forkpty_window_def tty_thread_start_def Let_def)

text \<open>
  The window is 32 columns by 32 rows for 256 by 512 pixels, and the width divided by 8 by
  the height divided by 16 in general, on the runs where the thread reads \<open>dimen\<close> before
  \<open>ul_terminal_prepare_current_terminal\<close> returns.
\<close>

lemma geometry_when_read_before_return:
  assumes "dimen_slot E = None"
  shows
  "(fst (prepare_session E globals 256 512 w) \<longrightarrow>
      map_option forkpty_window (snd (snd (prepare_session E globals 256 512 w))) =
        Some \<lparr>ws_row = 32, ws_col = 32\<rparr>) \<and>
   (fst (prepare_session E globals term_width term_height w) \<and> 0 \<le> term_width \<and> 0 \<le> term_height \<longrightarrow>
      map_option forkpty_window (snd (snd (prepare_session E globals term_width term_height w))) =
        Some \<lparr>ws_row = word_of_int (term_height div 16), ws_col = word_of_int (term_width div 8)\<rparr>)"
proof -
  have started: "map_option forkpty_window (snd (snd (prepare_session E globals tw th w))) =
                   Some (window_size \<lparr>width = tw, height = th\<rparr>)"
    if ok: "fst (prepare_session E globals tw th w)" for tw th
  proof -
    have "thread_arg (snd (ul_terminal_prepare_current_terminal E tw th w)) =
            Some \<lparr>width = tw, height = th\<rparr>"
      using ok by (simp add: prepare_session_def prepare_defs split: prod.splits if_splits)
    then show ?thesis
      using assms
      by (auto simp add: prepare_session_def forkpty_window_start thread_reads_dimen_def
          split: prod.splits)
  qed
  have ws: "window_size \<lparr>width = 256, height = 512\<rparr> = \<lparr>ws_row = 32, ws_col = 32\<rparr>"
    by (simp add: window_size_def c_div_def)
  have pos: "c_div a b = a div b" if "0 \<le> a" "0 < b" for a b
    using that by (cases "a = 0") (simp_all add: c_div_def sgn_if)
  have general: "window_size \<lparr>width = tw, height = th\<rparr> =
                   \<lparr>ws_row = word_of_int (th div 16), ws_col = word_of_int (tw div 8)\<rparr>"
    if "0 \<le> tw" "0 \<le> th" for tw th
    using that by (simp add: window_size_def pos)
  show ?thesis
    using started [of 256 512] started [of term_width term_height] ws general by auto
qed

section \<open>The decision of a read cycle, the slip of the terminator apart\<close>

text \<open>
  When the terminator of the command on record is inside its block, a read cycle that
  leaves room for the terminator of \<open>terminal_buffer\<close> decides as the specification
  says.
\<close>

lemma publish_decision_with_terminator_in_block:
  assumes "echo_window_ok s"
    and "revents inp AND POLLIN \<noteq> 0" and "\<not> term_needs_update s"
    and "read_result inp = Read_bytes data" and "length data < BUFFER_SIZE P"
    and "length (remove_escape_codes P (cstr data)) \<le> length data"
    and "case entered_command s of None \<Rightarrow> True | Some ec \<Rightarrow> length ec < block_size P (length ec)"
  shows "\<exists>s'. snd (loop_iteration P inp s) = Inr s' \<and>
           ((terminal_buffer s' = data \<and> term_needs_update s') \<longleftrightarrow>
              genuine_output_spec (entered_command s) data) \<and>
           (\<not> genuine_output_spec (entered_command s) data \<longrightarrow>
              (\<exists>ec. entered_command s = Some ec \<and>
                 terminal_buffer s' = terminal_buffer (suppress_echo P ec (s\<lparr>terminal_buffer := data\<rparr>)) \<and>
                 term_needs_update s' = term_needs_update (suppress_echo P ec (s\<lparr>terminal_buffer := data\<rparr>))))"
proof -
  let ?b = "if tmp_length s \<noteq> 0 then behind_entered_command inp else []"
  let ?s' = "free_echo_window P ?b (echo_decision P ?b (copy_cut_terminal
               (s\<lparr>sig_int_sent := False, terminal_buffer := data\<rparr>)))"
  have run: "snd (loop_iteration P inp s) = Inr ?s'"
    using assms(2-5) by (simp add: loop_iteration_read)
  have hs: "case entered_command s of None \<Rightarrow> True | Some ec \<Rightarrow> heap_string P ?b ec = ec"
    using assms(7) by (simp add: heap_string_in_block split: option.splits)
  note out = read_state_output [OF assms(1) hs, of data]
  show ?thesis
  proof (cases "genuine_output_spec (entered_command s) data")
    case True
    with out have "terminal_buffer ?s' = data" "term_needs_update ?s'"
      by (simp_all split: option.splits)
    with run True show ?thesis by simp
  next
    case False
    then obtain ec where ec: "entered_command s = Some ec" "ec \<noteq> []" "take (length ec) data = ec"
      by (auto simp: genuine_output_spec_def split: option.splits)
    from assms(1) ec have nn: "NUL \<notin> set ec" by (simp add: echo_window_ok_def)
    let ?d = "s\<lparr>terminal_buffer := data\<rparr>"
    from out ec False have o: "terminal_buffer ?s' = terminal_buffer (suppress_echo P ec ?d)"
      "term_needs_update ?s' = term_needs_update (suppress_echo P ec ?d)"
      by simp_all
    have "length (take (length ec) data) = length ec" using ec(3) by simp
    then have "length ec \<le> length data" by simp
    with nn ec have f1: "0 < strlen ec" and f2: "strlen ec \<le> length (terminal_buffer ?d)"
      by (simp_all add: strlen_no_NUL)
    have f3: "\<not> term_needs_update ?d" using assms(3) by simp
    have f4: "length (remove_escape_codes P (cstr (terminal_buffer ?d))) \<le> length (terminal_buffer ?d)"
      using assms(6) by simp
    have "\<not> (terminal_buffer (suppress_echo P ec ?d) = terminal_buffer ?d \<and>
             term_needs_update (suppress_echo P ec ?d))"
      by (rule suppress_echo_not_full [OF f3 f1 f2 f4])
    then have "\<not> (terminal_buffer ?s' = data \<and> term_needs_update ?s')"
      using o by simp
    with run False ec o show ?thesis by simp
  qed
qed

section \<open>The claims\<close>

text \<open>
  C1 fails on the code. When the terminator of the command on record was written behind
  its block (lines 199 to 201 ask \<open>malloc\<close> for the length of the command and write at
  that index) and the \<open>malloc\<close> of line 170 has put a byte other than NUL there, the
  comparison of line 175 fails: the bytes just read are forwarded in full and "needs
  update" is set although their leading length(EchoWindow) bytes equal the EchoWindow
  text.
\<close>

theorem echo_missed_behind_block:
  assumes "echo_window_ok s"
    and "revents inp AND POLLIN \<noteq> 0" and "\<not> term_needs_update s"
    and "read_result inp = Read_bytes data" and "length data < BUFFER_SIZE P"
    and "entered_command s = Some ec" and "ec \<noteq> []" and "take (length ec) data = ec"
    and "block_size P (length ec) \<le> length ec"
    and "cstr (behind_entered_command inp) \<noteq> []"
  shows "\<exists>s'. snd (loop_iteration P inp s) = Inr s' \<and>
           terminal_buffer s' = data \<and> term_needs_update s' \<and>
           \<not> genuine_output_spec (entered_command s) data"
proof -
  let ?b = "if tmp_length s \<noteq> 0 then behind_entered_command inp else []"
  let ?c = "copy_cut_terminal (s\<lparr>sig_int_sent := False, terminal_buffer := data\<rparr>)"
  let ?s' = "free_echo_window P ?b (echo_decision P ?b ?c)"
  have run: "snd (loop_iteration P inp s) = Inr ?s'"
    using assms(2-5) by (simp add: loop_iteration_read)
  from assms(1,6,7) have "tmp_length s \<noteq> 0" by (simp add: echo_window_ok_def)
  then have b: "?b = behind_entered_command inp" by simp
  have ok: "echo_window_ok (s\<lparr>sig_int_sent := False\<rparr>)"
    using assms(1) by (simp add: echo_window_ok_def split: option.splits)
  have "echo_decision P (behind_entered_command inp)
          (copy_cut_terminal (s\<lparr>sig_int_sent := False\<rparr>\<lparr>terminal_buffer := data\<rparr>)) =
        (copy_cut_terminal (s\<lparr>sig_int_sent := False\<rparr>\<lparr>terminal_buffer := data\<rparr>))\<lparr>term_needs_update := True\<rparr>"
    using ok _ assms(7,9,10) by (rule echo_decision_overwritten) (simp add: assms(6))
  then have "echo_decision P ?b ?c = ?c\<lparr>term_needs_update := True\<rparr>"
    using b by simp
  then have "terminal_buffer ?s' = data" "term_needs_update ?s'"
    by (simp_all add: free_echo_window_fields copy_cut_terminal_fields)
  moreover have "\<not> genuine_output_spec (entered_command s) data"
    using assms(6-8) by (simp add: genuine_output_spec_def)
  ultimately show ?thesis using run by simp
qed

theorem echo_missed_behind_block_witness:
  "length long_command = 24 \<and>
   take (length long_command) (long_command @ '' out'') = long_command \<and>
   (\<exists>s'. snd (loop_iteration example_platform (readable (long_command @ '' out'')) awaiting_long_echo) = Inr s' \<and>
      terminal_buffer s' = long_command @ '' out'' \<and> term_needs_update s')"
  using echo_missed_behind_block [of awaiting_long_echo "readable (long_command @ '' out'')"
      "long_command @ '' out''" example_platform long_command]
  by (simp add: example_defs long_command_def awaiting_long_echo_def long_session_def)




text \<open>
  C3 (as amended). \<open>prepare\<close> returns false exactly when opening the console, one of its
  four mode requests, or the creation of the session thread fails, and true otherwise; it
  has started the thread exactly when it returns true; and what \<open>forkpty\<close> does inside
  the thread has no part in the result.
\<close>

theorem prepare_result:
  "fst (ul_terminal_prepare_current_terminal E term_width term_height w) =
     (0 \<le> open_result E \<and> \<not> ioctl_fails E KDGKBMODE \<and> \<not> ioctl_fails E KDSKBMODE \<and>
      \<not> ioctl_fails E KDGETMODE \<and> \<not> ioctl_fails E KDSETMODE \<and> pthread_create_result E = 0) \<and>
   thread_arg (snd (ul_terminal_prepare_current_terminal E term_width term_height w)) =
     (if fst (ul_terminal_prepare_current_terminal E term_width term_height w)
      then Some \<lparr>width = term_width, height = term_height\<rparr> else thread_arg w) \<and>
   ul_terminal_prepare_current_terminal (E\<lparr>forkpty_result := fk\<rparr>) term_width term_height w =
     ul_terminal_prepare_current_terminal E term_width term_height w"
  by (simp add: prepare_defs)

theorem prepare_result_witness:
  "\<not> fst (ul_terminal_prepare_current_terminal failing_KDGETMODE 256 512 startup_console) \<and>
   fst (ul_terminal_prepare_current_terminal failing_forkpty 256 512 startup_console)"
  using prepare_result [of failing_KDGETMODE 256 512 startup_console Forkpty_failed]
    prepare_result [of failing_forkpty 256 512 startup_console Forkpty_failed]
  by (simp add: failing_KDGETMODE_def failing_forkpty_def)

text \<open>
  C3 as stated fails: when only \<open>forkpty\<close> fails, \<open>prepare\<close> returns true, and the thread
  runs the loop with \<open>pid = -1\<close>.
\<close>

theorem forkpty_failure_not_reported:
  "forkpty_result failing_forkpty = Forkpty_failed \<and>
   (case prepare_session failing_forkpty (startup_globals 8) 256 512 startup_console of
      (ok, w, Some (Parent_runs_loop ws s)) \<Rightarrow> ok \<and> pid s = - 1
    | _ \<Rightarrow> False)"
  by (simp add: prepare_session_def prepare_defs failing_forkpty_def startup_console_def
      tty_thread_start_def startup_globals_def)

text \<open>
  C4. In an iteration with an interrupt request pending, the trace is: lock, poll, sleep;
  then \<open>pgrep -P\<close> for the shell and one SIGINT per line of its output, which for a shell
  whose children \<open>pgrep\<close> lists is one SIGINT per child, in order; then SIGINT for the
  shell itself; and only then the read or the write, if any. The request flag is clear
  afterwards.
\<close>

theorem interrupt_before_io:
  assumes "sig_int_sent s"
  shows "\<exists>io r. loop_iteration P inp s =
            ([Mutex_lock, Poll (tty_fd s) 10, Usleep 100] @
             run_kill_child_pids (pid s) (pgrep_output inp) @ [Kill (pid s) SIGINT] @ io, r) \<and>
          (\<forall>e\<in>set io. is_io e \<or> e = Mutex_unlock) \<and>
          (\<forall>s'. r = Inr s' \<longrightarrow> \<not> sig_int_sent s') \<and>
          (\<forall>children. pgrep_output inp = Some (pgrep_lines children) \<and>
               (\<forall>c\<in>set children. 0 < c \<and> c < 2 ^ 31) \<longrightarrow>
             run_kill_child_pids (pid s) (pgrep_output inp) =
               Popen (''pgrep -P '' @ sprintf_d (pid s)) # map (\<lambda>c. Kill c SIGINT) children @ [Pclose])"
proof -
  from loop_iteration_trace [of P inp s] obtain io r where
    t: "loop_iteration P inp s =
            ([Mutex_lock, Poll (tty_fd s) 10, Usleep 100] @ fst (handle_interrupt inp s) @ io, r)"
    and io: "\<forall>e\<in>set io. is_io e \<or> e = Mutex_unlock"
    and fl: "\<forall>s'. r = Inr s' \<longrightarrow> \<not> sig_int_sent s'"
    by blast
  have sg: "fst (handle_interrupt inp s) = run_kill_child_pids (pid s) (pgrep_output inp) @ [Kill (pid s) SIGINT]"
    using assms by (simp add: handle_interrupt_def)
  have ch: "run_kill_child_pids (pid s) (pgrep_output inp) =
               Popen (''pgrep -P '' @ sprintf_d (pid s)) # map (\<lambda>c. Kill c SIGINT) children @ [Pclose]"
    if "pgrep_output inp = Some (pgrep_lines children) \<and> (\<forall>c\<in>set children. 0 < c \<and> c < 2 ^ 31)"
    for children
    using that by (simp add: run_kill_child_pids_def kill_lines_pgrep_lines)
  from t io fl ch show ?thesis unfolding sg by auto
qed

theorem interrupt_before_io_witness:
  "\<exists>io r. loop_iteration example_platform (interrupted [101, 202]) (example_session\<lparr>sig_int_sent := True\<rparr>) =
      ([Mutex_lock, Poll 5 10, Usleep 100, Popen ''pgrep -P 77'', Kill 101 SIGINT, Kill 202 SIGINT,
        Pclose, Kill 77 SIGINT] @ io, r) \<and>
      list_all (\<lambda>e. is_io e \<or> e = Mutex_unlock) io"
proof -
  have p: "sprintf_d 77 = ''77''"
    by code_simp
  show ?thesis
    using interrupt_before_io [of "example_session\<lparr>sig_int_sent := True\<rparr>" example_platform "interrupted [101, 202]"]
    by (auto simp add: example_defs interrupted_def p list_all_iff)
qed

text \<open>
  C5. Every iteration reads from or writes to the pseudo-terminal at most once; when the
  descriptor is readable and the previous output is consumed it is the read, whatever
  command is ready; a write happens only when the read does not; and no read happens
  while "needs update" is still set.
\<close>

theorem one_transfer_per_iteration:
  "length (filter is_io (fst (loop_iteration P inp s))) \<le> 1 \<and>
   (revents inp AND POLLIN \<noteq> 0 \<and> \<not> term_needs_update s \<longrightarrow>
      filter is_io (fst (loop_iteration P inp s)) = [Read_tty (tty_fd s) (BUFFER_SIZE P)]) \<and>
   ((\<exists>fd bs. Write_tty fd bs \<in> set (fst (loop_iteration P inp s))) \<longrightarrow>
      \<not> (revents inp AND POLLIN \<noteq> 0 \<and> \<not> term_needs_update s) \<and>
      revents inp AND POLLOUT \<noteq> 0 \<and> command_ready_to_send s) \<and>
   (term_needs_update s \<longrightarrow> (\<forall>fd n. Read_tty fd n \<notin> set (fst (loop_iteration P inp s))))"
proof -
  let ?ev = "fst (loop_iteration P inp s)"
  note io = loop_iteration_io [of P inp s]
  have mem: "e \<in> set ?ev \<Longrightarrow> is_io e \<Longrightarrow> e \<in> set (filter is_io ?ev)" for e by simp
  have w: "\<exists>fd bs. Write_tty fd bs \<in> set ?ev \<Longrightarrow>
      \<not> (revents inp AND POLLIN \<noteq> 0 \<and> \<not> term_needs_update s) \<and>
      revents inp AND POLLOUT \<noteq> 0 \<and> command_ready_to_send s"
  proof -
    assume "\<exists>fd bs. Write_tty fd bs \<in> set ?ev"
    then obtain fd bs where "Write_tty fd bs \<in> set ?ev" by blast
    then have "Write_tty fd bs \<in> set (filter is_io ?ev)" by (simp add: is_io_simps)
    then show ?thesis unfolding io by (auto split: if_splits)
  qed
  have r: "term_needs_update s \<Longrightarrow> Read_tty fd n \<notin> set ?ev" for fd n
  proof
    assume f: "term_needs_update s" and "Read_tty fd n \<in> set ?ev"
    then have "Read_tty fd n \<in> set (filter is_io ?ev)" by (simp add: is_io_simps)
    with f show False unfolding io by (auto split: if_splits)
  qed
  show ?thesis using w r by (simp add: io)
qed

theorem one_transfer_per_iteration_witness:
  "filter is_io (fst (loop_iteration example_platform (readable ''$ '') (submit_command ''ls'' example_session))) =
     [Read_tty 5 1024] \<and>
   length (filter is_io (fst (loop_iteration example_platform (readable ''$ '') (submit_command ''ls'' example_session)))) \<le> 1"
  using one_transfer_per_iteration [of example_platform "readable ''$ ''" "submit_command ''ls'' example_session"]
  by (simp add: example_defs)




text \<open>
  C7 (as amended). The Session Controller never clears "needs update": an iteration that
  starts with the flag set ends with it set, reads nothing and leaves the OutputBuffer as
  it is. New output is published only in an iteration that finds the flag already clear.
\<close>

theorem controller_never_clears_flag:
  assumes "term_needs_update s"
  shows "\<exists>s'. snd (loop_iteration P inp s) = Inr s' \<and>
           term_needs_update s' \<and> terminal_buffer s' = terminal_buffer s \<and>
           (\<forall>fd n. Read_tty fd n \<notin> set (fst (loop_iteration P inp s)))"
proof -
  obtain sg s1 where h: "handle_interrupt inp s = (sg, s1)" by (cases "handle_interrupt inp s")
  then have s1: "s1 = s\<lparr>sig_int_sent := False\<rparr>"
    using handle_interrupt_state [of inp s] by simp
  have r: "Read_tty fd n \<notin> set (fst (loop_iteration P inp s))" for fd n
  proof
    assume "Read_tty fd n \<in> set (fst (loop_iteration P inp s))"
    then have "Read_tty fd n \<in> set (filter is_io (fst (loop_iteration P inp s)))"
      by (simp add: is_io_simps)
    with assms show False by (simp add: loop_iteration_io split: if_splits)
  qed
  have "\<exists>s'. snd (loop_iteration P inp s) = Inr s' \<and>
           term_needs_update s' \<and> terminal_buffer s' = terminal_buffer s"
    using assms by (simp add: loop_iteration_def h s1 send_command_def Let_def)
  with r show ?thesis by blast
qed

theorem controller_never_clears_flag_witness:
  "\<exists>s'. snd (loop_iteration example_platform (readable ''b'')
             (example_session\<lparr>terminal_buffer := ''a'', term_needs_update := True\<rparr>)) = Inr s' \<and>
      term_needs_update s' \<and> terminal_buffer s' = ''a''"
  using controller_never_clears_flag [of "example_session\<lparr>terminal_buffer := ''a'', term_needs_update := True\<rparr>"
      example_platform "readable ''b''"]
  by (auto simp add: example_defs)

text \<open>
  C7 as stated fails: with two chunks to read and nobody but the controller at work, the
  first chunk is published, the flag stays set, and the second chunk is never read.
\<close>

theorem second_chunk_not_published:
  "case tty_loop example_platform [readable ''a'', readable ''b''] example_session of
     (ev, Inl f) \<Rightarrow> False
   | (ev, Inr s') \<Rightarrow>
       term_needs_update s' \<and> terminal_buffer s' = ''a'' \<and> filter is_io ev = [Read_tty 5 1024]"
  by (simp add: example_defs iteration_defs is_io_simps run_kill_child_pids_def)

text \<open>
  C8 fails on the code. \<open>ul_terminal_prepare_current_terminal\<close> hands the thread the
  address of its automatic variable \<open>dimen\<close> and returns without waiting (lines 250 to
  265); a thread that reads \<open>tty_dimen->width\<close> and \<open>tty_dimen->height\<close> after that
  return computes the window from what it finds in the dead stack slot, whatever the pixel
  size was.
\<close>

theorem geometry_from_dead_slot:
  assumes "fst (prepare_session E globals term_width term_height w)"
    and "dimen_slot E = Some found"
  shows "map_option forkpty_window (snd (snd (prepare_session E globals term_width term_height w))) =
           Some (window_size found)"
proof -
  have "thread_arg (snd (ul_terminal_prepare_current_terminal E term_width term_height w)) =
          Some \<lparr>width = term_width, height = term_height\<rparr>"
    using assms(1) by (simp add: prepare_session_def prepare_defs split: prod.splits if_splits)
  then show ?thesis
    using assms(2)
    by (auto simp add: prepare_session_def forkpty_window_start thread_reads_dimen_def
        split: prod.splits)
qed

theorem geometry_from_dead_slot_witness:
  "fst (prepare_session thread_runs_late (startup_globals 8) 256 512 startup_console) \<and>
   map_option forkpty_window
     (snd (snd (prepare_session thread_runs_late (startup_globals 8) 256 512 startup_console))) =
   Some \<lparr>ws_row = 0, ws_col = 0\<rparr> \<and>
   \<lparr>ws_row = 0, ws_col = 0\<rparr> \<noteq> \<lparr>ws_row = 32, ws_col = (32 :: 16 word)\<rparr>"
  using geometry_from_dead_slot [of thread_runs_late "startup_globals 8" 256 512 startup_console
      "\<lparr>width = 0, height = 0\<rparr>"]
  by (simp add: prepare_session_def prepare_defs thread_runs_late_def startup_console_def
      window_size_def c_div_def split: prod.splits)

text \<open>
  C9. In the echo-suppression branch "needs update" is set if and only if the length of
  the stripped buffer minus the length of the echoed command is greater than 2, and then
  the buffer holds the remainder; with a remainder of 1 or 2 characters the flag stays
  clear and the buffer keeps the stripped text.
\<close>

theorem echo_remainder_threshold:
  assumes "\<not> term_needs_update s"
    and "stripped = remove_escape_codes P (cstr (terminal_buffer s))"
    and "strlen stripped < 2 ^ 31" and "strlen ec < 2 ^ 31"
  shows "(term_needs_update (suppress_echo P ec s) \<longleftrightarrow> int (strlen stripped) - int (strlen ec) > 2) \<and>
         (term_needs_update (suppress_echo P ec s) \<longrightarrow>
            terminal_buffer (suppress_echo P ec s) = drop (strlen ec) (cstr stripped)) \<and>
         (int (strlen stripped) - int (strlen ec) = 1 \<or> int (strlen stripped) - int (strlen ec) = 2 \<longrightarrow>
            \<not> term_needs_update (suppress_echo P ec s) \<and> terminal_buffer (suppress_echo P ec s) = stripped)"
proof -
  have b: "strlen (remove_escape_codes P (cstr (terminal_buffer s))) < 2 ^ 31"
    using assms(2,3) by simp
  have r: "suppress_echo P ec s =
          (if strlen ec + 2 < strlen stripped
           then s\<lparr>terminal_buffer := drop (strlen ec) (cstr stripped), term_needs_update := True\<rparr>
           else s\<lparr>terminal_buffer := stripped\<rparr>)"
    using suppress_echo_result [OF b assms(4)] assms(2) by simp
  show ?thesis
  proof (cases "strlen ec + 2 < strlen stripped")
    case True
    with r show ?thesis by auto
  next
    case False
    with r assms(1) show ?thesis by auto
  qed
qed

theorem echo_remainder_threshold_witness:
  "term_needs_update (suppress_echo example_platform ''ls'' (example_session\<lparr>terminal_buffer := ''lsabc''\<rparr>)) \<and>
   terminal_buffer (suppress_echo example_platform ''ls'' (example_session\<lparr>terminal_buffer := ''lsabc''\<rparr>)) = ''abc'' \<and>
   \<not> term_needs_update (suppress_echo example_platform ''ls'' (example_session\<lparr>terminal_buffer := ''lsab''\<rparr>)) \<and>
   terminal_buffer (suppress_echo example_platform ''ls'' (example_session\<lparr>terminal_buffer := ''lsab''\<rparr>)) = ''lsab''"
  using echo_remainder_threshold [of "example_session\<lparr>terminal_buffer := ''lsabc''\<rparr>"
      "''lsabc''" example_platform "''ls''"]
    echo_remainder_threshold [of "example_session\<lparr>terminal_buffer := ''lsab''\<rparr>"
      "''lsab''" example_platform "''ls''"]
  by (simp add: example_defs)

text \<open>
  C10. When the console is open and the keyboard mode has been read and switched off, and
  then the \<open>KDGETMODE\<close> request, the \<open>KDSETMODE\<close> request or the creation of the thread
  fails, \<open>prepare\<close> returns false and leaves the keyboard mode of the console off; the
  original mode is on record in \<open>original_kb_mode\<close> and is not restored.
\<close>

theorem keyboard_left_off_on_late_failure:
  assumes "0 \<le> open_result E"
    and "\<not> ioctl_fails E KDGKBMODE" and "\<not> ioctl_fails E KDSKBMODE"
    and "ioctl_fails E KDGETMODE \<or> ioctl_fails E KDSETMODE \<or> pthread_create_result E \<noteq> 0"
  shows "\<not> fst (ul_terminal_prepare_current_terminal E term_width term_height w) \<and>
         console_kb_mode (snd (ul_terminal_prepare_current_terminal E term_width term_height w)) = K_OFF \<and>
         original_kb_mode (snd (ul_terminal_prepare_current_terminal E term_width term_height w)) =
           console_kb_mode w"
  using assms by (auto simp add: prepare_defs)

theorem keyboard_left_off_on_late_failure_witness:
  "\<not> fst (ul_terminal_prepare_current_terminal failing_KDGETMODE 256 512 startup_console) \<and>
   console_kb_mode (snd (ul_terminal_prepare_current_terminal failing_KDGETMODE 256 512 startup_console)) = K_OFF \<and>
   console_kb_mode startup_console = K_UNICODE \<and> K_OFF \<noteq> K_UNICODE"
  using keyboard_left_off_on_late_failure [of failing_KDGETMODE 256 512 startup_console]
  by (simp add: failing_KDGETMODE_def startup_console_def K_OFF_def K_UNICODE_def)

end
